theory Spec2Isabelle
  imports Complex_Main "HOL-Library.Word"
begin

section \<open>NumPy arrays\<close>

text \<open>
  The notebook \<^verbatim>\<open>tutorials/08_crafting_summary_statistics.ipynb\<close> computes with NumPy
  arrays of one and two dimensions. A one-dimensional array is its list of entries; a
  two-dimensional array is its number of columns and its list of rows (the column count
  is kept apart so that an array with no rows still has a shape). Entries are real
  numbers: float64 arithmetic is idealised as exact arithmetic.
\<close>

datatype error = IndexError | ValueError

datatype ndarray = Arr1 "real list" | Arr2 nat "real list list"

fun ndim :: "ndarray \<Rightarrow> nat" where
  "ndim (Arr1 xs) = 1"
| "ndim (Arr2 c rs) = 2"

fun shape :: "ndarray \<Rightarrow> nat list" where
  "shape (Arr1 xs) = [length xs]"
| "shape (Arr2 c rs) = [length rs, c]"

text \<open>Every row of a two-dimensional array has as many entries as the array has columns.\<close>

fun wf_array :: "ndarray \<Rightarrow> bool" where
  "wf_array (Arr1 xs) = True"
| "wf_array (Arr2 c rs) = list_all (\<lambda>r. length r = c) rs"

definition and_then :: "error + 'a \<Rightarrow> ('a \<Rightarrow> error + 'b) \<Rightarrow> error + 'b" where
  "and_then m f = (case m of Inl e \<Rightarrow> Inl e | Inr v \<Rightarrow> f v)"

text \<open>\<^verbatim>\<open>a[np.newaxis, :]\<close> and \<^verbatim>\<open>a[:, np.newaxis]\<close> on a one-dimensional array.\<close>

fun newaxis_row :: "ndarray \<Rightarrow> ndarray" where
  "newaxis_row (Arr1 xs) = Arr2 (length xs) [xs]"
| "newaxis_row (Arr2 c rs) = Arr2 c rs"

fun newaxis_col :: "ndarray \<Rightarrow> ndarray" where
  "newaxis_col (Arr1 xs) = Arr2 1 (map (\<lambda>v. [v]) xs)"
| "newaxis_col (Arr2 c rs) = Arr2 c rs"

text \<open>
  \<^verbatim>\<open>a[:, k]\<close>: column \<open>k\<close> of a two-dimensional array, as a one-dimensional array.
  NumPy raises IndexError when \<open>k\<close> is not below the number of columns (also when the
  array has no rows), and when the array has one dimension only.
\<close>

fun col :: "ndarray \<Rightarrow> nat \<Rightarrow> error + ndarray" where
  "col (Arr1 xs) k = Inl IndexError"
| "col (Arr2 c rs) k = (if k < c then Inr (Arr1 (map (\<lambda>r. r ! k) rs)) else Inl IndexError)"

text \<open>\<^verbatim>\<open>np.linspace(start, stop, num)\<close>.\<close>

definition linspace :: "real \<Rightarrow> real \<Rightarrow> nat \<Rightarrow> ndarray" where
  "linspace start stop num =
     Arr1 (map (\<lambda>i. start + real i * ((stop - start) / real (num - 1))) [0..<num])"

text \<open>
  \<^verbatim>\<open>np.repeat(a, n, axis=1)\<close>: every entry of every row is repeated \<open>n\<close> times. A
  one-dimensional array has no axis 1 (NumPy's AxisError is a ValueError).
\<close>

fun repeat_axis1 :: "ndarray \<Rightarrow> nat \<Rightarrow> error + ndarray" where
  "repeat_axis1 (Arr1 xs) n = Inl ValueError"
| "repeat_axis1 (Arr2 c rs) n = Inr (Arr2 (c * n) (map (\<lambda>r. concat (map (replicate n) r)) rs))"

fun map_array :: "(real \<Rightarrow> real) \<Rightarrow> ndarray \<Rightarrow> ndarray" where
  "map_array f (Arr1 xs) = Arr1 (map f xs)"
| "map_array f (Arr2 c rs) = Arr2 c (map (map f) rs)"

subsection \<open>Broadcasting\<close>

text \<open>
  Two axes are compatible when they are equal or one of them is 1; the axis of length 1
  is stretched. A one-dimensional operand meets a two-dimensional one as a single row.
  Incompatible shapes raise ValueError.
\<close>

definition bdim :: "nat \<Rightarrow> nat \<Rightarrow> nat option" where
  "bdim m n = (if m = n then Some m else if m = 1 then Some n else if n = 1 then Some m else None)"

definition stretch :: "nat \<Rightarrow> 'a list \<Rightarrow> 'a list" where
  "stretch n xs = (case xs of [x] \<Rightarrow> replicate n x | _ \<Rightarrow> xs)"

fun as_rows :: "ndarray \<Rightarrow> nat \<times> real list list" where
  "as_rows (Arr1 xs) = (length xs, [xs])"
| "as_rows (Arr2 c rs) = (c, rs)"

definition broadcast2 ::
  "(real \<Rightarrow> real \<Rightarrow> real) \<Rightarrow> nat \<times> real list list \<Rightarrow> nat \<times> real list list \<Rightarrow> error + ndarray" where
  "broadcast2 f A B =
     (case bdim (length (snd A)) (length (snd B)) of
        None \<Rightarrow> Inl ValueError
      | Some r \<Rightarrow>
         (case bdim (fst A) (fst B) of
            None \<Rightarrow> Inl ValueError
          | Some c \<Rightarrow>
              Inr (Arr2 c (map2 (\<lambda>x y. map2 f (stretch c x) (stretch c y))
                             (stretch r (snd A)) (stretch r (snd B))))))"

fun broadcast :: "(real \<Rightarrow> real \<Rightarrow> real) \<Rightarrow> ndarray \<Rightarrow> ndarray \<Rightarrow> error + ndarray" where
  "broadcast f (Arr1 xs) (Arr1 ys) =
     (case bdim (length xs) (length ys) of
        None \<Rightarrow> Inl ValueError
      | Some n \<Rightarrow> Inr (Arr1 (map2 f (stretch n xs) (stretch n ys))))"
| "broadcast f A B = broadcast2 f (as_rows A) (as_rows B)"

definition np_add :: "ndarray \<Rightarrow> ndarray \<Rightarrow> error + ndarray" where
  "np_add = broadcast (+)"

definition np_mul :: "ndarray \<Rightarrow> ndarray \<Rightarrow> error + ndarray" where
  "np_mul = broadcast (*)"

definition np_sub :: "ndarray \<Rightarrow> ndarray \<Rightarrow> error + ndarray" where
  "np_sub = broadcast (-)"

subsection \<open>Reductions and reshaping\<close>

text \<open>\<^verbatim>\<open>np.square(a)\<close>.\<close>

definition np_square :: "ndarray \<Rightarrow> ndarray" where
  "np_square = map_array (\<lambda>v. v * v)"

text \<open>
  \<^verbatim>\<open>np.mean(a, axis=0, keepdims=True)\<close>: the mean of every column, as one row. (On an
  array with no rows NumPy yields NaN, which has no counterpart here; the notebook takes
  the mean of 200 rows.)
\<close>

fun mean_axis0 :: "ndarray \<Rightarrow> ndarray" where
  "mean_axis0 (Arr1 xs) = Arr1 [sum_list xs / real (length xs)]"
| "mean_axis0 (Arr2 c rs) =
     Arr2 c [map (\<lambda>j. sum_list (map (\<lambda>r. r ! j) rs) / real (length rs)) [0..<c]]"

text \<open>\<^verbatim>\<open>a.T\<close>.\<close>

fun transpose_array :: "ndarray \<Rightarrow> ndarray" where
  "transpose_array (Arr1 xs) = Arr1 xs"
| "transpose_array (Arr2 c rs) = Arr2 (length rs) (map (\<lambda>j. map (\<lambda>r. r ! j) rs) [0..<c])"

text \<open>
  \<^verbatim>\<open>np.array([a, b, c])\<close> on a list of three one-dimensional arrays: the arrays become
  the rows of a two-dimensional array; rows of different lengths raise ValueError. (The
  notebook stacks results of \<open>eval\<close>, which are one-dimensional; stacking arrays of two
  dimensions would give an array of three, which this model has not.)
\<close>

fun np_array3 :: "ndarray \<Rightarrow> ndarray \<Rightarrow> ndarray \<Rightarrow> error + ndarray" where
  "np_array3 (Arr1 xs) (Arr1 ys) (Arr1 zs) =
     (if length ys = length xs \<and> length zs = length xs
      then Inr (Arr2 (length xs) [xs, ys, zs]) else Inl ValueError)"
| "np_array3 A B C = Inl ValueError"

section \<open>Random generators\<close>

text \<open>
  \<^verbatim>\<open>np.random.RandomState(seed)\<close> accepts the seeds \<open>0 .. 2^32 - 1\<close>, so a seed is a
  32-bit word. A generator is the sequence of standard normal draws it hands out, in
  order. The generator built from a seed is a function of the seed; the generator built
  without a seed takes its state from the operating system, so each construction gets
  the next of a sequence of unrelated generators, and the number of generators taken so
  far is the state that the functions of the notebook pass on.
\<close>

type_synonym generator = "nat \<Rightarrow> real"

record randomness =
  seeded :: "32 word \<Rightarrow> generator"
  unseeded :: "nat \<Rightarrow> generator"

definition RandomState :: "randomness \<Rightarrow> 32 word option \<Rightarrow> nat \<Rightarrow> generator \<times> nat" where
  "RandomState R seed w =
     (case seed of Some s \<Rightarrow> (seeded R s, w) | None \<Rightarrow> (unseeded R w, Suc w))"

text \<open>
  \<^verbatim>\<open>rng.randn(n)\<close> and \<^verbatim>\<open>rng.randn(m, n)\<close> on a generator that has not been used: the
  array is filled with the generator's draws in row-major order.
\<close>

definition randn1 :: "generator \<Rightarrow> nat \<Rightarrow> ndarray" where
  "randn1 g n = Arr1 (map g [0..<n])"

definition randn2 :: "generator \<Rightarrow> nat \<Rightarrow> nat \<Rightarrow> ndarray" where
  "randn2 g m n = Arr2 n (map (\<lambda>i. map (\<lambda>j. g (i * n + j)) [0..<n]) [0..<m])"

section \<open>The simulator\<close>

text \<open>
  \<^verbatim>\<open>create_t_x(theta, seed=None)\<close>. The operands of the sum are evaluated from left to
  right, as Python does.
\<close>

definition create_t_x ::
  "randomness \<Rightarrow> ndarray \<Rightarrow> 32 word option \<Rightarrow> nat \<Rightarrow> error + ((ndarray \<times> ndarray) \<times> nat)" where
  "create_t_x R theta0 seed w =
     (let theta = (if ndim theta0 = 1 then newaxis_row theta0 else theta0);
          (rng, w') = RandomState R seed w;
          t = linspace (- 1) 1 200
      in and_then (repeat_axis1 (newaxis_col t) (hd (shape theta))) (\<lambda>ts.
         and_then (col theta 0) (\<lambda>a.
         and_then (np_mul a (map_array (\<lambda>v. v ^ 2) ts)) (\<lambda>p.
         and_then (col theta 1) (\<lambda>b.
         and_then (np_mul b ts) (\<lambda>q.
         and_then (np_add p q) (\<lambda>pq.
         and_then (col theta 2) (\<lambda>c.
         and_then (np_add pq c) (\<lambda>pqc.
         and_then (np_add pqc (map_array (\<lambda>v. 0.01 * v)
                                 (randn2 rng (hd (shape ts)) (hd (shape theta))))) (\<lambda>x.
         Inr ((t, x), w')))))))))))"

text \<open>\<^verbatim>\<open>eval(theta, t, seed=None)\<close>, for a scalar \<open>t\<close>.\<close>

definition eval ::
  "randomness \<Rightarrow> ndarray \<Rightarrow> real \<Rightarrow> 32 word option \<Rightarrow> nat \<Rightarrow> error + (ndarray \<times> nat)" where
  "eval R theta0 t seed w =
     (let theta = (if ndim theta0 = 1 then newaxis_row theta0 else theta0);
          (rng, w') = RandomState R seed w
      in and_then (col theta 0) (\<lambda>a.
         let p = map_array (\<lambda>v. v * t ^ 2) a in
         and_then (col theta 1) (\<lambda>b.
         let q = map_array (\<lambda>v. v * t) b in
         and_then (np_add p q) (\<lambda>pq.
         and_then (col theta 2) (\<lambda>c.
         and_then (np_add pq c) (\<lambda>pqc.
         and_then (np_add pqc (map_array (\<lambda>v. 0.01 * v) (randn1 rng 1))) (\<lambda>x.
         Inr (x, w'))))))))"

section \<open>Summary statistics\<close>

text \<open>\<^verbatim>\<open>get_3_values(theta, seed=None)\<close>: three calls of \<open>eval\<close>, each with the same seed.\<close>

definition get_3_values ::
  "randomness \<Rightarrow> ndarray \<Rightarrow> 32 word option \<Rightarrow> nat \<Rightarrow> error + (ndarray \<times> nat)" where
  "get_3_values R theta seed w =
     and_then (eval R theta (- 0.5) seed w) (\<lambda>(e1, w1).
     and_then (eval R theta 0 seed w1) (\<lambda>(e2, w2).
     and_then (eval R theta 0.75 seed w2) (\<lambda>(e3, w3).
     and_then (np_array3 e1 e2 e3) (\<lambda>m.
     Inr (transpose_array m, w3)))))"

text \<open>\<^verbatim>\<open>get_MSE(theta, theta_o, seed=None)\<close>: the reference trace is made first.\<close>

definition get_MSE ::
  "randomness \<Rightarrow> ndarray \<Rightarrow> ndarray \<Rightarrow> 32 word option \<Rightarrow> nat \<Rightarrow> error + (ndarray \<times> nat)" where
  "get_MSE R theta theta_o seed w =
     and_then (create_t_x R theta_o seed w) (\<lambda>((t, x), w1).
     and_then (create_t_x R theta seed w1) (\<lambda>((t', x'), w2).
     and_then (np_sub x' x) (\<lambda>d.
     Inr (transpose_array (mean_axis0 (np_square d)), w2))))"

text \<open>
  A generator family for running the functions on concrete inputs. The draws of one
  generator are pairwise different, generators of different seeds differ, and so do the
  generators built without a seed at different times.
\<close>

definition counting :: randomness where
  "counting = \<lparr> seeded = (\<lambda>s n. real (unat s) + 1 / (2 + real n)),
                unseeded = (\<lambda>k n. - real k - 1 / (2 + real n)) \<rparr>"

section \<open>Closed forms\<close>

text \<open>
  The values the simulator is meant to compute, written without arrays: the points of the
  time grid, the quadratic of a parameter row, and the rows of a noisy trace whose entry
  \<open>(i, j)\<close> takes draw \<open>i * N + j\<close> of the generator.
\<close>

definition time_grid :: "nat \<Rightarrow> real" where
  "time_grid i = - 1 + real i * (2 / 199)"

definition quadratic :: "real list \<Rightarrow> real \<Rightarrow> real" where
  "quadratic r t = r ! 0 * t ^ 2 + r ! 1 * t + r ! 2"

definition trace :: "generator \<Rightarrow> real list list \<Rightarrow> real list list" where
  "trace g rs =
     map (\<lambda>i. map (\<lambda>j. quadratic (rs ! j) (time_grid i) + 0.01 * g (i * length rs + j))
                [0..<length rs]) [0..<200]"

definition mse :: "real list list \<Rightarrow> real list list \<Rightarrow> nat \<Rightarrow> real" where
  "mse xc xo j = (\<Sum>i\<leftarrow>[0..<200]. (xc ! i ! j - xo ! i ! 0)\<^sup>2) / 200"

section \<open>Lists and broadcasting\<close>

lemma and_then_Inr [simp]: "and_then (Inr v) f = f v"
  by (simp add: and_then_def)

lemma and_then_Inl [simp]: "and_then (Inl e) f = Inl e"
  by (simp add: and_then_def)

lemma stretch_same: "length xs = n \<Longrightarrow> stretch n xs = xs"
  by (cases xs rule: list.exhaust; cases "tl xs") (auto simp: stretch_def split: list.splits)

lemma stretch_single [simp]: "stretch n [x] = replicate n x"
  by (simp add: stretch_def)

lemma bdim_same [simp]: "bdim n n = Some n"
  by (simp add: bdim_def)

lemma bdim_one_left [simp]: "bdim (Suc 0) n = Some n"
  by (simp add: bdim_def)

lemma bdim_one_right [simp]: "bdim n (Suc 0) = Some n"
  by (simp add: bdim_def)

lemma map2_replicate_left: "length ys = n \<Longrightarrow> map2 f (replicate n x) ys = map (f x) ys"
  by (induction ys arbitrary: n) auto

lemma map2_replicate_right: "length xs = n \<Longrightarrow> map2 f xs (replicate n y) = map (\<lambda>x. f x y) xs"
  by (induction xs arbitrary: n) auto

lemma map2_map_same: "map2 f (map g xs) (map h xs) = map (\<lambda>x. f (g x) (h x)) xs"
  by (induction xs) auto

lemma map2_map_replicate:
  "map2 f (map g xs) (replicate (length xs) y) = map (\<lambda>x. f (g x) y) xs"
  by (induction xs) auto

lemma map_by_index: "map g xs = map (\<lambda>j. g (xs ! j)) [0..<length xs]"
  by (rule nth_equalityI) simp_all

lemma map2_map_index:
  "map2 f (map g xs) (map h [0..<length xs]) = map (\<lambda>j. f (g (xs ! j)) (h j)) [0..<length xs]"
proof -
  have "map2 f (map g xs) (map h [0..<length xs])
        = map2 f (map (\<lambda>j. g (xs ! j)) [0..<length xs]) (map h [0..<length xs])"
    using map_by_index [of g xs] by simp
  also have "\<dots> = map (\<lambda>j. f (g (xs ! j)) (h j)) [0..<length xs]"
    by (rule map2_map_same)
  finally show ?thesis .
qed

lemma map2_stretch_rows:
  assumes "list_all (\<lambda>r. length r = c) rs" and "list_all (\<lambda>r. length r = c) rs'"
  shows "map2 (\<lambda>x y. map2 f (stretch c x) (stretch c y)) rs rs' = map2 (map2 f) rs rs'"
proof (rule map_cong [OF refl])
  fix p assume "p \<in> set (zip rs rs')"
  then have "fst p \<in> set rs" and "snd p \<in> set rs'"
    by (auto simp: set_zip)
  with assms have "length (fst p) = c" and "length (snd p) = c"
    by (simp_all add: list_all_iff)
  then show "(case p of (x, y) \<Rightarrow> map2 f (stretch c x) (stretch c y)) = (case p of (x, y) \<Rightarrow> map2 f x y)"
    by (simp add: case_prod_beta stretch_same)
qed

lemma broadcast_same_shape:
  assumes "length rs = length rs'"
    and "list_all (\<lambda>r. length r = c) rs" and "list_all (\<lambda>r. length r = c) rs'"
  shows "broadcast f (Arr2 c rs) (Arr2 c rs') = Inr (Arr2 c (map2 (map2 f) rs rs'))"
  using assms by (simp add: broadcast2_def stretch_same map2_stretch_rows)

lemma broadcast_row_left:
  assumes "length xs = c" and "list_all (\<lambda>r. length r = c) rs"
  shows "broadcast f (Arr1 xs) (Arr2 c rs) = Inr (Arr2 c (map (\<lambda>r. map2 f xs r) rs))"
proof -
  have "map2 (\<lambda>x y. map2 f (stretch c x) (stretch c y)) (replicate (length rs) xs) rs
        = map2 (map2 f) (replicate (length rs) xs) rs"
    using assms by (intro map2_stretch_rows) (simp_all add: list_all_iff)
  then show ?thesis
    using assms by (simp add: broadcast2_def stretch_same map2_replicate_left)
qed

lemma broadcast_row_right:
  assumes "length xs = c" and "list_all (\<lambda>r. length r = c) rs"
  shows "broadcast f (Arr2 c rs) (Arr1 xs) = Inr (Arr2 c (map (\<lambda>r. map2 f r xs) rs))"
proof -
  have "map2 (\<lambda>x y. map2 f (stretch c x) (stretch c y)) rs (replicate (length rs) xs)
        = map2 (map2 f) rs (replicate (length rs) xs)"
    using assms by (intro map2_stretch_rows) (simp_all add: list_all_iff)
  then show ?thesis
    using assms by (simp add: broadcast2_def stretch_same map2_replicate_right)
qed

text \<open>The shapes that meet in the simulator, with the entries written out.\<close>

lemma broadcast_col_grid:
  "broadcast f (Arr1 (map g rs)) (Arr2 (length rs) (map (\<lambda>i. replicate (length rs) (h i)) ixs))
     = Inr (Arr2 (length rs) (map (\<lambda>i. map (\<lambda>r. f (g r) (h i)) rs) ixs))"
proof -
  have "broadcast f (Arr1 (map g rs)) (Arr2 (length rs) (map (\<lambda>i. replicate (length rs) (h i)) ixs))
        = Inr (Arr2 (length rs)
             (map (\<lambda>r. map2 f (map g rs) r) (map (\<lambda>i. replicate (length rs) (h i)) ixs)))"
    by (rule broadcast_row_left) (simp_all add: list_all_iff)
  also have "map (\<lambda>r. map2 f (map g rs) r) (map (\<lambda>i. replicate (length rs) (h i)) ixs)
        = map (\<lambda>i. map (\<lambda>r. f (g r) (h i)) rs) ixs"
    unfolding map_map comp_def map2_map_replicate ..
  finally show ?thesis .
qed

lemma broadcast_rows_pointwise:
  "broadcast f (Arr2 (length rs) (map (\<lambda>i. map (g i) rs) ixs))
               (Arr2 (length rs) (map (\<lambda>i. map (h i) rs) ixs))
     = Inr (Arr2 (length rs) (map (\<lambda>i. map (\<lambda>r. f (g i r) (h i r)) rs) ixs))"
proof -
  have "broadcast f (Arr2 (length rs) (map (\<lambda>i. map (g i) rs) ixs))
               (Arr2 (length rs) (map (\<lambda>i. map (h i) rs) ixs))
        = Inr (Arr2 (length rs)
             (map2 (map2 f) (map (\<lambda>i. map (g i) rs) ixs) (map (\<lambda>i. map (h i) rs) ixs)))"
    by (rule broadcast_same_shape) (simp_all add: list_all_iff)
  also have "map2 (map2 f) (map (\<lambda>i. map (g i) rs) ixs) (map (\<lambda>i. map (h i) rs) ixs)
        = map (\<lambda>i. map (\<lambda>r. f (g i r) (h i r)) rs) ixs"
    unfolding map2_map_same ..
  finally show ?thesis .
qed

lemma broadcast_rows_col:
  "broadcast f (Arr2 (length rs) (map (\<lambda>i. map (g i) rs) ixs)) (Arr1 (map h rs))
     = Inr (Arr2 (length rs) (map (\<lambda>i. map (\<lambda>r. f (g i r) (h r)) rs) ixs))"
proof -
  have "broadcast f (Arr2 (length rs) (map (\<lambda>i. map (g i) rs) ixs)) (Arr1 (map h rs))
        = Inr (Arr2 (length rs)
             (map (\<lambda>r. map2 f r (map h rs)) (map (\<lambda>i. map (g i) rs) ixs)))"
    by (rule broadcast_row_right) (simp_all add: list_all_iff)
  also have "map (\<lambda>r. map2 f r (map h rs)) (map (\<lambda>i. map (g i) rs) ixs)
        = map (\<lambda>i. map (\<lambda>r. f (g i r) (h r)) rs) ixs"
    unfolding map_map comp_def map2_map_same ..
  finally show ?thesis .
qed

lemma broadcast_rows_indexed:
  "broadcast f (Arr2 (length rs) (map (\<lambda>i. map (g i) rs) ixs))
               (Arr2 (length rs) (map (\<lambda>i. map (h i) [0..<length rs]) ixs))
     = Inr (Arr2 (length rs) (map (\<lambda>i. map (\<lambda>j. f (g i (rs ! j)) (h i j)) [0..<length rs]) ixs))"
proof -
  have "broadcast f (Arr2 (length rs) (map (\<lambda>i. map (g i) rs) ixs))
               (Arr2 (length rs) (map (\<lambda>i. map (h i) [0..<length rs]) ixs))
        = Inr (Arr2 (length rs)
             (map2 (map2 f) (map (\<lambda>i. map (g i) rs) ixs) (map (\<lambda>i. map (h i) [0..<length rs]) ixs)))"
    by (rule broadcast_same_shape) (simp_all add: list_all_iff)
  also have "map2 (map2 f) (map (\<lambda>i. map (g i) rs) ixs) (map (\<lambda>i. map (h i) [0..<length rs]) ixs)
        = map (\<lambda>i. map (\<lambda>j. f (g i (rs ! j)) (h i j)) [0..<length rs]) ixs"
    unfolding map2_map_same map2_map_index ..
  finally show ?thesis .
qed

lemma broadcast_rows_single:
  "broadcast f (Arr2 n (map (\<lambda>i. map (F i) [0..<n]) ixs)) (Arr2 1 (map (\<lambda>i. [G i]) ixs))
     = Inr (Arr2 n (map (\<lambda>i. map (\<lambda>j. f (F i j) (G i)) [0..<n]) ixs))"
proof -
  have inner: "map2 f (stretch n (map (F i) [0..<n])) (stretch n [G i])
               = map (\<lambda>j. f (F i j) (G i)) [0..<n]" for i
    using map2_map_replicate [of f "F i" "[0..<n]" "G i"] by (simp add: stretch_same)
  have "map2 (\<lambda>x y. map2 f (stretch n x) (stretch n y))
          (map (\<lambda>i. map (F i) [0..<n]) ixs) (map (\<lambda>i. [G i]) ixs)
        = map (\<lambda>i. map2 f (stretch n (map (F i) [0..<n])) (stretch n [G i])) ixs"
    by (rule map2_map_same)
  also have "\<dots> = map (\<lambda>i. map (\<lambda>j. f (F i j) (G i)) [0..<n]) ixs"
    unfolding inner ..
  finally have rows: "map2 (\<lambda>x y. map2 f (stretch n x) (stretch n y))
          (map (\<lambda>i. map (F i) [0..<n]) ixs) (map (\<lambda>i. [G i]) ixs)
        = map (\<lambda>i. map (\<lambda>j. f (F i j) (G i)) [0..<n]) ixs" .
  have "broadcast f (Arr2 n (map (\<lambda>i. map (F i) [0..<n]) ixs)) (Arr2 1 (map (\<lambda>i. [G i]) ixs))
        = Inr (Arr2 n (map2 (\<lambda>x y. map2 f (stretch n x) (stretch n y))
          (map (\<lambda>i. map (F i) [0..<n]) ixs) (map (\<lambda>i. [G i]) ixs)))"
    by (simp add: broadcast2_def stretch_same)
  then show ?thesis
    unfolding rows .
qed

lemma broadcast_vec_same:
  "broadcast f (Arr1 (map g rs)) (Arr1 (map h rs)) = Inr (Arr1 (map (\<lambda>r. f (g r) (h r)) rs))"
  by (simp add: stretch_same map2_map_same)

lemma broadcast_vec_single:
  "broadcast f (Arr1 (map g rs)) (Arr1 [y]) = Inr (Arr1 (map (\<lambda>r. f (g r) y) rs))"
proof -
  have "bdim (length rs) 1 = Some (length rs)"
    by simp
  moreover have "stretch (length rs) (map g rs) = map g rs"
    by (simp add: stretch_same)
  ultimately show ?thesis
    by (simp add: map2_map_replicate)
qed

lemma mean_of_rows:
  "mean_axis0 (Arr2 n (map (\<lambda>i. map (S i) [0..<n]) ixs))
     = Arr2 n [map (\<lambda>j. sum_list (map (\<lambda>i. S i j) ixs) / real (length ixs)) [0..<n]]"
  by (simp add: comp_def)

lemma transpose_single_row:
  "transpose_array (Arr2 n [map M [0..<n]]) = Arr2 1 (map (\<lambda>j. [M j]) [0..<n])"
  by simp

lemma transpose_three:
  "transpose_array (Arr2 (length rs) [map f rs, map g rs, map h rs])
     = Arr2 3 (map (\<lambda>r. [f r, g r, h r]) rs)"
proof -
  have "map (\<lambda>j. map (\<lambda>r. r ! j) [map f rs, map g rs, map h rs]) [0..<length rs]
        = map (\<lambda>j. [f (rs ! j), g (rs ! j), h (rs ! j)]) [0..<length rs]"
    by simp
  also have "\<dots> = map (\<lambda>r. [f r, g r, h r]) rs"
    by (rule map_by_index [symmetric])
  finally show ?thesis
    by simp
qed

section \<open>The steps of the simulator\<close>

lemma linspace_grid: "linspace (- 1) 1 200 = Arr1 (map time_grid [0..<200])"
  by (simp add: linspace_def time_grid_def)

lemma keep_batch: "(if ndim (Arr2 c rs) = 1 then newaxis_row (Arr2 c rs) else Arr2 c rs) = Arr2 c rs"
  by simp

lemma batch_size: "hd (shape (Arr2 c rs)) = length rs"
  by simp

lemma grid_columns:
  "repeat_axis1 (newaxis_col (Arr1 (map time_grid [0..<200]))) n
     = Inr (Arr2 n (map (\<lambda>i. replicate n (time_grid i)) [0..<200]))"
  by (simp add: comp_def)

lemma grid_rows: "length (map (\<lambda>i. replicate n (time_grid i)) [0..<200]) = 200"
  by simp

lemma grid_columns_squared:
  "map_array (\<lambda>v. v ^ 2) (Arr2 n (map (\<lambda>i. replicate n (time_grid i)) [0..<200]))
     = Arr2 n (map (\<lambda>i. replicate n ((time_grid i)\<^sup>2)) [0..<200])"
  by (simp add: comp_def)

lemma col_ok: "k < c \<Longrightarrow> col (Arr2 c rs) k = Inr (Arr1 (map (\<lambda>r. r ! k) rs))"
  by simp

lemma col_fails: "\<not> k < c \<Longrightarrow> col (Arr2 c rs) k = Inl IndexError"
  by simp

lemma quadratic_term:
  "np_mul (Arr1 (map (\<lambda>r. r ! 0) rs))
          (Arr2 (length rs) (map (\<lambda>i. replicate (length rs) ((time_grid i)\<^sup>2)) [0..<200]))
     = Inr (Arr2 (length rs) (map (\<lambda>i. map (\<lambda>r. r ! 0 * (time_grid i)\<^sup>2) rs) [0..<200]))"
  unfolding np_mul_def by (rule broadcast_col_grid)

lemma linear_term:
  "np_mul (Arr1 (map (\<lambda>r. r ! 1) rs))
          (Arr2 (length rs) (map (\<lambda>i. replicate (length rs) (time_grid i)) [0..<200]))
     = Inr (Arr2 (length rs) (map (\<lambda>i. map (\<lambda>r. r ! 1 * time_grid i) rs) [0..<200]))"
  unfolding np_mul_def by (rule broadcast_col_grid)

lemma quadratic_plus_linear:
  "np_add (Arr2 (length rs) (map (\<lambda>i. map (\<lambda>r. r ! 0 * (time_grid i)\<^sup>2) rs) [0..<200]))
          (Arr2 (length rs) (map (\<lambda>i. map (\<lambda>r. r ! 1 * time_grid i) rs) [0..<200]))
     = Inr (Arr2 (length rs)
             (map (\<lambda>i. map (\<lambda>r. r ! 0 * (time_grid i)\<^sup>2 + r ! 1 * time_grid i) rs) [0..<200]))"
  unfolding np_add_def by (rule broadcast_rows_pointwise)

lemma plus_constant:
  "np_add (Arr2 (length rs)
             (map (\<lambda>i. map (\<lambda>r. r ! 0 * (time_grid i)\<^sup>2 + r ! 1 * time_grid i) rs) [0..<200]))
          (Arr1 (map (\<lambda>r. r ! 2) rs))
     = Inr (Arr2 (length rs) (map (\<lambda>i. map (\<lambda>r. quadratic r (time_grid i)) rs) [0..<200]))"
  unfolding np_add_def quadratic_def by (rule broadcast_rows_col)

lemma scaled_noise:
  "map_array (\<lambda>v. 0.01 * v) (randn2 g 200 n)
     = Arr2 n (map (\<lambda>i. map (\<lambda>j. 0.01 * g (i * n + j)) [0..<n]) [0..<200])"
  by (simp add: randn2_def comp_def)

lemma plus_noise:
  "np_add (Arr2 (length rs) (map (\<lambda>i. map (\<lambda>r. quadratic r (time_grid i)) rs) [0..<200]))
          (Arr2 (length rs) (map (\<lambda>i. map (\<lambda>j. 0.01 * g (i * length rs + j)) [0..<length rs]) [0..<200]))
     = Inr (Arr2 (length rs) (trace g rs))"
  unfolding np_add_def trace_def by (rule broadcast_rows_indexed)

lemma create_t_x_rows:
  assumes c: "3 \<le> c"
  shows "create_t_x R (Arr2 c rs) seed w =
           Inr ((Arr1 (map time_grid [0..<200]),
                 Arr2 (length rs) (trace (fst (RandomState R seed w)) rs)),
                snd (RandomState R seed w))"
proof -
  obtain g w' where rs: "RandomState R seed w = (g, w')"
    by (cases "RandomState R seed w")
  have cols: "0 < c" "1 < c" "2 < c"
    using c by simp_all
  have "create_t_x R (Arr2 c rs) seed w =
          Inr ((Arr1 (map time_grid [0..<200]), Arr2 (length rs) (trace g rs)), w')"
    by (simp only: create_t_x_def keep_batch Let_def rs prod.case batch_size linspace_grid
          grid_columns grid_rows and_then_Inr col_ok [OF cols(1)] col_ok [OF cols(2)]
          col_ok [OF cols(3)] grid_columns_squared quadratic_term linear_term
          quadratic_plus_linear plus_constant scaled_noise plus_noise)
  then show ?thesis
    by (simp only: rs fst_conv snd_conv)
qed

lemma create_t_x_short:
  assumes c: "c < 3"
  shows "create_t_x R (Arr2 c rs) seed w = Inl IndexError"
proof -
  obtain g w' where rs: "RandomState R seed w = (g, w')"
    by (cases "RandomState R seed w")
  consider "c = 0" | "c = 1" | "c = 2"
    using c by linarith
  then show ?thesis
  proof cases
    case 1
    then have no: "\<not> 0 < c"
      by simp
    show ?thesis
      by (simp only: create_t_x_def keep_batch Let_def rs prod.case batch_size linspace_grid
            grid_columns and_then_Inr col_fails [OF no] and_then_Inl)
  next
    case 2
    then have ok: "0 < c" and no: "\<not> 1 < c"
      by simp_all
    show ?thesis
      by (simp only: create_t_x_def keep_batch Let_def rs prod.case batch_size linspace_grid
            grid_columns and_then_Inr col_ok [OF ok] grid_columns_squared quadratic_term
            col_fails [OF no] and_then_Inl)
  next
    case 3
    then have ok: "0 < c" "1 < c" and no: "\<not> 2 < c"
      by simp_all
    show ?thesis
      by (simp only: create_t_x_def keep_batch Let_def rs prod.case batch_size linspace_grid
            grid_columns and_then_Inr col_ok [OF ok(1)] col_ok [OF ok(2)] grid_columns_squared
            quadratic_term linear_term quadratic_plus_linear col_fails [OF no] and_then_Inl)
  qed
qed

lemma create_t_x_vector:
  "create_t_x R (Arr1 xs) seed w = create_t_x R (Arr2 (length xs) [xs]) seed w"
  by (simp add: create_t_x_def)

lemma eval_vector:
  "eval R (Arr1 xs) t seed w = eval R (Arr2 (length xs) [xs]) t seed w"
  by (simp add: eval_def)

lemma scale_column: "map_array (\<lambda>v. v * s) (Arr1 (map (\<lambda>r. r ! k) rs)) = Arr1 (map (\<lambda>r. r ! k * s) rs)"
  by (simp add: comp_def)

lemma eval_quadratic_plus_linear:
  "np_add (Arr1 (map (\<lambda>r. r ! 0 * t ^ 2) rs)) (Arr1 (map (\<lambda>r. r ! 1 * t) rs))
     = Inr (Arr1 (map (\<lambda>r. r ! 0 * t ^ 2 + r ! 1 * t) rs))"
  unfolding np_add_def by (rule broadcast_vec_same)

lemma eval_plus_constant:
  "np_add (Arr1 (map (\<lambda>r. r ! 0 * t ^ 2 + r ! 1 * t) rs)) (Arr1 (map (\<lambda>r. r ! 2) rs))
     = Inr (Arr1 (map (\<lambda>r. quadratic r t) rs))"
  unfolding np_add_def quadratic_def by (rule broadcast_vec_same)

lemma eval_scaled_noise: "map_array (\<lambda>v. 0.01 * v) (randn1 g 1) = Arr1 [0.01 * g 0]"
  by (simp add: randn1_def)

lemma eval_plus_noise:
  "np_add (Arr1 (map (\<lambda>r. quadratic r t) rs)) (Arr1 [0.01 * g 0])
     = Inr (Arr1 (map (\<lambda>r. quadratic r t + 0.01 * g 0) rs))"
  unfolding np_add_def by (rule broadcast_vec_single)

lemma eval_rows:
  assumes c: "3 \<le> c"
  shows "eval R (Arr2 c rs) t seed w =
           Inr (Arr1 (map (\<lambda>r. quadratic r t + 0.01 * fst (RandomState R seed w) 0) rs),
                snd (RandomState R seed w))"
proof -
  obtain g w' where rs: "RandomState R seed w = (g, w')"
    by (cases "RandomState R seed w")
  have cols: "0 < c" "1 < c" "2 < c"
    using c by simp_all
  have "eval R (Arr2 c rs) t seed w = Inr (Arr1 (map (\<lambda>r. quadratic r t + 0.01 * g 0) rs), w')"
    by (simp only: eval_def keep_batch Let_def rs prod.case and_then_Inr col_ok [OF cols(1)]
          col_ok [OF cols(2)] col_ok [OF cols(3)] scale_column eval_quadratic_plus_linear
          eval_plus_constant eval_scaled_noise eval_plus_noise)
  then show ?thesis
    by (simp only: rs fst_conv snd_conv)
qed

lemma eval_short:
  assumes c: "c < 3"
  shows "eval R (Arr2 c rs) t seed w = Inl IndexError"
proof -
  obtain g w' where rs: "RandomState R seed w = (g, w')"
    by (cases "RandomState R seed w")
  consider "c = 0" | "c = 1" | "c = 2"
    using c by linarith
  then show ?thesis
  proof cases
    case 1
    then have no: "\<not> 0 < c"
      by simp
    show ?thesis
      by (simp only: eval_def keep_batch Let_def rs prod.case col_fails [OF no] and_then_Inl)
  next
    case 2
    then have ok: "0 < c" and no: "\<not> 1 < c"
      by simp_all
    show ?thesis
      by (simp only: eval_def keep_batch Let_def rs prod.case and_then_Inr col_ok [OF ok]
            col_fails [OF no] and_then_Inl)
  next
    case 3
    then have ok: "0 < c" "1 < c" and no: "\<not> 2 < c"
      by simp_all
    show ?thesis
      by (simp only: eval_def keep_batch Let_def rs prod.case and_then_Inr col_ok [OF ok(1)]
            col_ok [OF ok(2)] scale_column eval_quadratic_plus_linear col_fails [OF no]
            and_then_Inl)
  qed
qed

lemma trace_entries:
  "length (trace g rs) = 200"
  "i < 200 \<Longrightarrow> length (trace g rs ! i) = length rs"
  "i < 200 \<Longrightarrow> j < length rs \<Longrightarrow>
     trace g rs ! i ! j = quadratic (rs ! j) (time_grid i) + 0.01 * g (i * length rs + j)"
  by (simp_all add: trace_def)

lemma draw_index_inj: "inj_on (\<lambda>(i, j). i * n + j) ({..<m :: nat} \<times> {..<n :: nat})"
proof (rule inj_onI, clarify)
  fix i j i' j' :: nat
  assume j: "j < n" and j': "j' < n" and eq: "i * n + j = i' * n + j'"
  from eq have "(i * n + j) div n = (i' * n + j') div n" and "(i * n + j) mod n = (i' * n + j') mod n"
    by simp_all
  with j j' show "i = i' \<and> j = j'"
    by simp
qed

lemma trace_wf: "wf_array (Arr2 (length rs) (trace g rs))"
  by (simp add: trace_def list_all_iff)

lemma trace_shape: "shape (Arr2 (length rs) (trace g rs)) = [200, length rs]"
  by (simp add: trace_def)

lemma map_sum_and_then:
  "map_sum id f (and_then m k) = and_then m (\<lambda>v. map_sum id f (k v))"
  by (cases m) simp_all

lemma create_t_x_seeded_state:
  "create_t_x R theta (Some s) w = map_sum id (\<lambda>r. (fst r, w)) (create_t_x R theta (Some s) w')"
  by (simp add: create_t_x_def RandomState_def Let_def map_sum_and_then)

lemma eval_seeded_state:
  "eval R theta t (Some s) w = map_sum id (\<lambda>r. (fst r, w)) (eval R theta t (Some s) w')"
  by (simp add: eval_def RandomState_def Let_def map_sum_and_then)

lemma stack_columns:
  "np_array3 (Arr1 (map f rs)) (Arr1 (map g rs)) (Arr1 (map h rs))
     = Inr (Arr2 (length rs) [map f rs, map g rs, map h rs])"
  by simp

lemma get_3_values_rows:
  assumes c: "3 \<le> c"
    and g1: "RandomState R seed w = (g1, w1)"
    and g2: "RandomState R seed w1 = (g2, w2)"
    and g3: "RandomState R seed w2 = (g3, w3)"
  shows "get_3_values R (Arr2 c rs) seed w =
           Inr (Arr2 3 (map (\<lambda>r. [quadratic r (- 0.5) + 0.01 * g1 0,
                                   quadratic r 0 + 0.01 * g2 0,
                                   quadratic r 0.75 + 0.01 * g3 0]) rs), w3)"
  by (simp only: get_3_values_def eval_rows [OF c] g1 g2 g3 fst_conv snd_conv and_then_Inr
        prod.case stack_columns transpose_three)

lemma get_3_values_vector:
  "get_3_values R (Arr1 xs) seed w = get_3_values R (Arr2 (length xs) [xs]) seed w"
  by (simp add: get_3_values_def eval_vector)

lemma get_3_values_seeded_state:
  "get_3_values R theta (Some s) w
     = map_sum id (\<lambda>r. (fst r, w)) (get_3_values R theta (Some s) w')"
proof -
  define E1 where "E1 = eval R theta (- 0.5) (Some s) 0"
  define E2 where "E2 = eval R theta 0 (Some s) 0"
  define E3 where "E3 = eval R theta 0.75 (Some s) 0"
  have e1: "eval R theta (- 0.5) (Some s) u = map_sum id (\<lambda>r. (fst r, u)) E1" for u
    unfolding E1_def by (rule eval_seeded_state)
  have e2: "eval R theta 0 (Some s) u = map_sum id (\<lambda>r. (fst r, u)) E2" for u
    unfolding E2_def by (rule eval_seeded_state)
  have e3: "eval R theta 0.75 (Some s) u = map_sum id (\<lambda>r. (fst r, u)) E3" for u
    unfolding E3_def by (rule eval_seeded_state)
  show ?thesis
    unfolding get_3_values_def e1 e2 e3
    by (cases E1; cases E2; cases E3) (simp_all add: map_sum_and_then split: prod.splits)
qed

lemma trace_single: "trace g [v] = map (\<lambda>i. [quadratic v (time_grid i) + 0.01 * g i]) [0..<200]"
  by (simp add: trace_def)

lemma mse_traces:
  assumes "j < length rs"
  shows "mse (trace g2 rs) (trace g1 [v]) j =
     (\<Sum>i\<leftarrow>[0..<200]. (quadratic (rs ! j) (time_grid i) + 0.01 * g2 (i * length rs + j)
                          - (quadratic v (time_grid i) + 0.01 * g1 i))\<^sup>2) / 200"
proof -
  have "map (\<lambda>i. (trace g2 rs ! i ! j - trace g1 [v] ! i ! 0)\<^sup>2) [0..<200]
        = map (\<lambda>i. (quadratic (rs ! j) (time_grid i) + 0.01 * g2 (i * length rs + j)
                          - (quadratic v (time_grid i) + 0.01 * g1 i))\<^sup>2) [0..<200]"
    using assms by (intro map_cong refl) (simp add: trace_def)
  then show ?thesis
    unfolding mse_def by (rule arg_cong [where f = "\<lambda>xs. sum_list xs / 200"])
qed

lemma mse_nonneg: "0 \<le> mse xc xo j"
  unfolding mse_def by (intro divide_nonneg_nonneg sum_list_nonneg) auto

lemma get_MSE_rows:
  assumes c: "3 \<le> c" and v: "3 \<le> length v"
    and g1: "RandomState R seed w = (g1, w1)"
    and g2: "RandomState R seed w1 = (g2, w2)"
  shows "get_MSE R (Arr2 c rs) (Arr1 v) seed w =
           Inr (Arr2 1 (map (\<lambda>j. [mse (trace g2 rs) (trace g1 [v]) j]) [0..<length rs]), w2)"
proof -
  define n where "n = length rs"
  define F where "F = (\<lambda>i j. quadratic (rs ! j) (time_grid i) + 0.01 * g2 (i * n + j))"
  define G where "G = (\<lambda>i. quadratic v (time_grid i) + 0.01 * g1 i)"
  have xo: "create_t_x R (Arr1 v) seed w =
              Inr ((Arr1 (map time_grid [0..<200]), Arr2 1 (map (\<lambda>i. [G i]) [0..<200])), w1)"
    by (simp only: create_t_x_vector create_t_x_rows [OF v] g1 fst_conv snd_conv trace_single
          G_def list.size One_nat_def [symmetric]) simp
  have xc: "create_t_x R (Arr2 c rs) seed w1 =
              Inr ((Arr1 (map time_grid [0..<200]),
                    Arr2 n (map (\<lambda>i. map (F i) [0..<n]) [0..<200])), w2)"
    by (simp only: create_t_x_rows [OF c] g2 fst_conv snd_conv trace_def F_def n_def)
  have d: "np_sub (Arr2 n (map (\<lambda>i. map (F i) [0..<n]) [0..<200]))
                  (Arr2 1 (map (\<lambda>i. [G i]) [0..<200]))
            = Inr (Arr2 n (map (\<lambda>i. map (\<lambda>j. F i j - G i) [0..<n]) [0..<200]))"
    unfolding np_sub_def by (rule broadcast_rows_single)
  have sq: "np_square (Arr2 n (map (\<lambda>i. map (\<lambda>j. F i j - G i) [0..<n]) [0..<200]))
            = Arr2 n (map (\<lambda>i. map (\<lambda>j. (F i j - G i)\<^sup>2) [0..<n]) [0..<200])"
    by (simp add: np_square_def comp_def power2_eq_square)
  have mean: "mean_axis0 (Arr2 n (map (\<lambda>i. map (\<lambda>j. (F i j - G i)\<^sup>2) [0..<n]) [0..<200]))
            = Arr2 n [map (\<lambda>j. (\<Sum>i\<leftarrow>[0..<200]. (F i j - G i)\<^sup>2) / 200) [0..<n]]"
    by (simp only: mean_of_rows) simp
  have tr: "transpose_array (Arr2 n [map (\<lambda>j. (\<Sum>i\<leftarrow>[0..<200]. (F i j - G i)\<^sup>2) / 200) [0..<n]])
            = Arr2 1 (map (\<lambda>j. [(\<Sum>i\<leftarrow>[0..<200]. (F i j - G i)\<^sup>2) / 200]) [0..<n])"
    by (rule transpose_single_row)
  have fin: "map (\<lambda>j. [(\<Sum>i\<leftarrow>[0..<200]. (F i j - G i)\<^sup>2) / 200]) [0..<n]
            = map (\<lambda>j. [mse (trace g2 rs) (trace g1 [v]) j]) [0..<n]"
    by (intro map_cong refl) (simp add: mse_traces n_def F_def G_def)
  show ?thesis
    by (simp only: get_MSE_def xo xc and_then_Inr prod.case d sq mean tr fin n_def [symmetric])
qed

lemma get_MSE_vector:
  "get_MSE R (Arr1 xs) theta_o seed w = get_MSE R (Arr2 (length xs) [xs]) theta_o seed w"
  by (simp add: get_MSE_def create_t_x_vector)

lemma mse_same_trace: "mse x x 0 = 0"
  by (simp add: mse_def)

lemma quadratic_take: "quadratic (take 3 r) t = quadratic r t"
  by (simp add: quadratic_def)

lemma trace_take: "trace g (map (take 3) rs) = trace g rs"
  by (simp add: trace_def quadratic_take cong: map_cong)

lemma create_t_x_long:
  assumes "3 \<le> c"
  shows "create_t_x R (Arr2 c rs) seed w = create_t_x R (Arr2 3 (map (take 3) rs)) seed w"
  using assms create_t_x_rows [of c R rs seed w]
    create_t_x_rows [of 3 R "map (take 3) rs" seed w]
  by (simp add: trace_take)

lemma eval_long:
  assumes "3 \<le> c"
  shows "eval R (Arr2 c rs) t seed w = eval R (Arr2 3 (map (take 3) rs)) t seed w"
  using assms eval_rows [of c R rs t seed w] eval_rows [of 3 R "map (take 3) rs" t seed w]
  by (simp add: comp_def quadratic_take)

section \<open>The trace generator\<close>

text \<open>
  Claim C1. For a batch of \<open>N\<close> parameter triples, \<open>create_t_x\<close> returns the grid of 200
  points \<open>- 1 + 2 i / 199\<close> (evenly spaced from \<open>- 1\<close> to \<open>1\<close>) and a trace of 200 rows
  and \<open>N\<close> columns whose entry \<open>(i, j)\<close> is \<open>a\<^sub>j t\<^sub>i\<^sup>2 + b\<^sub>j t\<^sub>i + c\<^sub>j\<close> plus 0.01 times a
  standard normal draw of the generator. Entry \<open>(i, j)\<close> takes draw number \<open>i * N + j\<close>, so
  no two entries take the same draw: the noise of one entry is a draw of its own, for
  every time point and every sample.
\<close>

theorem create_t_x_noisy_quadratic:
  assumes "wf_array (Arr2 3 rs)" and "RandomState R seed w = (rng, w')"
  shows "\<exists>ts x. create_t_x R (Arr2 3 rs) seed w = Inr ((Arr1 ts, Arr2 (length rs) x), w')
           \<and> length ts = 200 \<and> ts ! 0 = - 1 \<and> ts ! 199 = 1 \<and> length x = 200
           \<and> (\<forall>i<200. ts ! i = - 1 + real i * (2 / 199) \<and> length (x ! i) = length rs
                 \<and> (\<forall>j<length rs.
                       x ! i ! j = rs ! j ! 0 * (ts ! i)\<^sup>2 + rs ! j ! 1 * ts ! i + rs ! j ! 2
                                   + 0.01 * rng (i * length rs + j)))
           \<and> inj_on (\<lambda>(i, j). i * length rs + j) ({..<200} \<times> {..<length rs})"
proof -
  have run: "create_t_x R (Arr2 3 rs) seed w =
               Inr ((Arr1 (map time_grid [0..<200]), Arr2 (length rs) (trace rng rs)), w')"
    using create_t_x_rows [of 3 R rs seed w] assms(2) by simp
  have grid: "\<forall>i<200. map time_grid [0..<200] ! i = - 1 + real i * (2 / 199)"
    by (simp add: time_grid_def)
  have ends: "map time_grid [0..<200] ! 0 = - 1" "map time_grid [0..<200] ! 199 = 1"
    by (simp_all add: time_grid_def)
  have entries: "\<forall>i<200. length (trace rng rs ! i) = length rs
                 \<and> (\<forall>j<length rs.
                       trace rng rs ! i ! j
                         = rs ! j ! 0 * (map time_grid [0..<200] ! i)\<^sup>2
                           + rs ! j ! 1 * map time_grid [0..<200] ! i + rs ! j ! 2
                           + 0.01 * rng (i * length rs + j))"
    by (simp add: trace_entries quadratic_def)
  show ?thesis
    using run grid ends entries trace_entries(1) [of rng rs] draw_index_inj [of "length rs" 200]
    by (intro exI [of _ "map time_grid [0..<200]"] exI [of _ "trace rng rs"]) simp
qed

theorem create_t_x_noisy_quadratic_witness:
  "wf_array (Arr2 3 [[1, 0, 0], [0, 0, 0]])
   \<and> RandomState counting (Some 7) 0 = (seeded counting 7, 0)
   \<and> (\<exists>ts x. create_t_x counting (Arr2 3 [[1, 0, 0], [0, 0, 0]]) (Some 7) 0
                = Inr ((Arr1 ts, Arr2 2 x), 0)
              \<and> length ts = 200 \<and> length x = 200 \<and> ts ! 199 = 1
              \<and> x ! 199 ! 0 = 1 + 0.01 * seeded counting 7 398
              \<and> x ! 199 ! 1 = 0.01 * seeded counting 7 399)"
proof -
  have wf: "wf_array (Arr2 3 [[1, 0, 0], [0, 0, 0]])"
    by simp
  have gen: "RandomState counting (Some 7) 0 = (seeded counting 7, 0)"
    by (simp add: RandomState_def)
  obtain ts x where run: "create_t_x counting (Arr2 3 [[1, 0, 0], [0, 0, 0]]) (Some 7) 0
                = Inr ((Arr1 ts, Arr2 (length [[1, 0, 0], [0, 0, 0 :: real]]) x), 0)"
      and len: "length ts = 200" "length x = 200" and last: "ts ! 199 = 1"
      and entries: "\<forall>i<200. ts ! i = - 1 + real i * (2 / 199)
                 \<and> length (x ! i) = length [[1, 0, 0], [0, 0, 0 :: real]]
                 \<and> (\<forall>j<length [[1, 0, 0], [0, 0, 0 :: real]].
                       x ! i ! j = [[1, 0, 0], [0, 0, 0]] ! j ! 0 * (ts ! i)\<^sup>2
                                   + [[1, 0, 0], [0, 0, 0]] ! j ! 1 * ts ! i
                                   + [[1, 0, 0], [0, 0, 0]] ! j ! 2
                                   + 0.01 * seeded counting 7 (i * length [[1, 0, 0], [0, 0, 0 :: real]] + j))"
    using create_t_x_noisy_quadratic [OF wf gen] by blast
  from entries have "x ! 199 ! 0 = [[1, 0, 0], [0, 0, 0]] ! 0 ! 0 * (ts ! 199)\<^sup>2
                                   + [[1, 0, 0], [0, 0, 0]] ! 0 ! 1 * ts ! 199
                                   + [[1, 0, 0], [0, 0, 0]] ! 0 ! 2
                                   + 0.01 * seeded counting 7 (199 * length [[1, 0, 0], [0, 0, 0 :: real]] + 0)"
    and "x ! 199 ! 1 = [[1, 0, 0], [0, 0, 0]] ! 1 ! 0 * (ts ! 199)\<^sup>2
                                   + [[1, 0, 0], [0, 0, 0]] ! 1 ! 1 * ts ! 199
                                   + [[1, 0, 0], [0, 0, 0]] ! 1 ! 2
                                   + 0.01 * seeded counting 7 (199 * length [[1, 0, 0], [0, 0, 0 :: real]] + 1)"
    by simp_all
  with last have "x ! 199 ! 0 = 1 + 0.01 * seeded counting 7 398"
    and "x ! 199 ! 1 = 0.01 * seeded counting 7 399"
    by simp_all
  with wf gen run len last show ?thesis
    by auto
qed

text \<open>
  Claim C5. With a seed, \<open>create_t_x\<close> is a function of the parameter batch and the seed
  alone: two invocations, made in whatever states \<open>w\<close> and \<open>w'\<close> the source of unseeded
  generators is in, return the same value (or fail alike), and an invocation leaves that
  state as it found it.
\<close>

theorem create_t_x_seeded_deterministic:
  "create_t_x R theta (Some s) w
     = map_sum id (\<lambda>r. (fst r, w)) (create_t_x R theta (Some s) w')"
  by (rule create_t_x_seeded_state)

theorem create_t_x_seeded_deterministic_witness:
  "create_t_x counting (Arr1 [1, 0, 0]) (Some 7) 0
     = map_sum id (\<lambda>r. (fst r, 0)) (create_t_x counting (Arr1 [1, 0, 0]) (Some 7) 5)"
  by (rule create_t_x_seeded_deterministic)

text \<open>
  Claim C6. The trace has 200 rows and one column for each sample: a single parameter
  vector of three entries counts as a batch of one and gives shape \<open>(200, 1)\<close>, a batch of
  \<open>N\<close> triples gives shape \<open>(200, N)\<close>; and whatever the input, a trace that is returned
  has 200 rows and one column for each sample.
\<close>

theorem create_t_x_shape:
  "(length v = 3 \<longrightarrow>
      (\<exists>t x w'. create_t_x R (Arr1 v) seed w = Inr ((t, x), w')
                 \<and> shape t = [200] \<and> shape x = [200, 1] \<and> wf_array x))
   \<and> (wf_array (Arr2 3 rs) \<longrightarrow>
      (\<exists>t x w'. create_t_x R (Arr2 3 rs) seed w = Inr ((t, x), w')
                 \<and> shape t = [200] \<and> shape x = [200, length rs] \<and> wf_array x))
   \<and> (create_t_x R theta seed w = Inr ((t', x'), w'') \<longrightarrow>
      shape x' = [200, if ndim theta = 1 then 1 else hd (shape theta)])"
proof (intro conjI impI)
  assume v: "length v = 3"
  have "create_t_x R (Arr1 v) seed w =
          Inr ((Arr1 (map time_grid [0..<200]),
                Arr2 (length [v]) (trace (fst (RandomState R seed w)) [v])),
               snd (RandomState R seed w))"
    using create_t_x_rows [of "length v" R "[v]" seed w] v by (simp add: create_t_x_vector)
  moreover have "shape (Arr2 (length [v]) (trace (fst (RandomState R seed w)) [v])) = [200, 1]"
    using trace_shape [of "[v]"] by simp
  ultimately show "\<exists>t x w'. create_t_x R (Arr1 v) seed w = Inr ((t, x), w')
                 \<and> shape t = [200] \<and> shape x = [200, 1] \<and> wf_array x"
    using trace_wf [of "[v]"] by simp
next
  have "create_t_x R (Arr2 3 rs) seed w =
          Inr ((Arr1 (map time_grid [0..<200]),
                Arr2 (length rs) (trace (fst (RandomState R seed w)) rs)),
               snd (RandomState R seed w))"
    by (rule create_t_x_rows) simp
  then show "\<exists>t x w'. create_t_x R (Arr2 3 rs) seed w = Inr ((t, x), w')
                 \<and> shape t = [200] \<and> shape x = [200, length rs] \<and> wf_array x"
    using trace_wf [of rs] trace_shape [of rs] by simp
next
  assume run: "create_t_x R theta seed w = Inr ((t', x'), w'')"
  obtain c rs' where batch: "create_t_x R theta seed w = create_t_x R (Arr2 c rs') seed w"
    and size: "(if ndim theta = 1 then 1 else hd (shape theta)) = length rs'"
  proof (cases theta)
    case (Arr1 xs)
    then show ?thesis
      using that [of "length xs" "[xs]"] by (simp add: create_t_x_vector)
  next
    case (Arr2 k rows)
    then show ?thesis
      using that [of k rows] by simp
  qed
  have "3 \<le> c"
  proof (rule ccontr)
    assume "\<not> 3 \<le> c"
    then have "create_t_x R (Arr2 c rs') seed w = Inl IndexError"
      by (intro create_t_x_short) simp
    with run batch show False
      by simp
  qed
  then have "x' = Arr2 (length rs') (trace (fst (RandomState R seed w)) rs')"
    using run batch create_t_x_rows [of c R rs' seed w] by simp
  then show "shape x' = [200, if ndim theta = 1 then 1 else hd (shape theta)]"
    unfolding size by (simp only: trace_shape)
qed

theorem create_t_x_shape_witness:
  "length [0.3, - 0.2, - 0.1 :: real] = 3
   \<and> (\<exists>t x w'. create_t_x counting (Arr1 [0.3, - 0.2, - 0.1]) None 0 = Inr ((t, x), w')
                 \<and> shape x = [200, 1])
   \<and> wf_array (Arr2 3 [[1, 0, 0], [0, 1, 0], [0, 0, 1]])
   \<and> (\<exists>t x w'. create_t_x counting (Arr2 3 [[1, 0, 0], [0, 1, 0], [0, 0, 1]]) None 0
                   = Inr ((t, x), w')
                 \<and> shape x = [200, 3])
   \<and> (\<exists>t x w'. create_t_x counting (Arr2 4 [[1, 2, 3, 4], [5, 6, 7, 8]]) None 0
                   = Inr ((t, x), w')
                 \<and> shape x = [200, 2])"
proof -
  have v: "length [0.3, - 0.2, - 0.1 :: real] = 3"
    and wf: "wf_array (Arr2 3 [[1, 0, 0], [0, 1, 0], [0, 0, 1]])"
    by simp_all
  have n: "length [[1, 0, 0], [0, 1, 0], [0, 0, 1 :: real]] = 3"
    by simp
  obtain t x w' where run: "create_t_x counting (Arr2 4 [[1, 2, 3, 4], [5, 6, 7, 8]]) None 0
                   = Inr ((t, x), w')"
    using create_t_x_rows [of 4 counting "[[1, 2, 3, 4], [5, 6, 7, 8]]" None 0] by simp
  have "shape x = [200, if ndim (Arr2 4 [[1, 2, 3, 4], [5, 6, 7, 8]]) = 1 then 1
                        else hd (shape (Arr2 4 [[1, 2, 3, 4], [5, 6, 7, 8]]))]"
    using create_t_x_shape [of _ counting None 0 _ "Arr2 4 [[1, 2, 3, 4], [5, 6, 7, 8]]" t x w'] run
    by blast
  then have "shape x = [200, 2]"
    by simp
  with run have wide: "\<exists>t x w'. create_t_x counting (Arr2 4 [[1, 2, 3, 4], [5, 6, 7, 8]]) None 0
                   = Inr ((t, x), w') \<and> shape x = [200, 2]"
    by blast
  from v wf wide show ?thesis
    using create_t_x_shape [of "[0.3, - 0.2, - 0.1]" counting None 0
        "[[1, 0, 0], [0, 1, 0], [0, 0, 1]]"]
    unfolding n by blast
qed

section \<open>The point evaluation\<close>

text \<open>
  Claim C4. For a batch of \<open>N\<close> parameter triples and a scalar \<open>t\<close>, \<open>eval\<close> returns \<open>N\<close>
  values \<open>a\<^sub>j t\<^sup>2 + b\<^sub>j t + c\<^sub>j + 0.01 z\<close>, where \<open>z\<close> is the one entry of \<open>randn(1)\<close>, the first
  draw of the generator: one draw for the call, added to every entry of the batch (the
  trace generator takes a draw of its own for every entry).
\<close>

theorem eval_shared_noise:
  assumes "wf_array (Arr2 3 rs)" and "RandomState R seed w = (rng, w')"
  shows "\<exists>y z. eval R (Arr2 3 rs) t seed w = Inr (Arr1 y, w')
           \<and> randn1 rng 1 = Arr1 [z] \<and> length y = length rs
           \<and> (\<forall>j<length rs. y ! j = rs ! j ! 0 * t\<^sup>2 + rs ! j ! 1 * t + rs ! j ! 2 + 0.01 * z)"
proof -
  have "eval R (Arr2 3 rs) t seed w
          = Inr (Arr1 (map (\<lambda>r. quadratic r t + 0.01 * rng 0) rs), w')"
    using eval_rows [of 3 R rs t seed w] assms(2) by simp
  moreover have "randn1 rng 1 = Arr1 [rng 0]"
    by (simp add: randn1_def)
  ultimately show ?thesis
    by (intro exI [of _ "map (\<lambda>r. quadratic r t + 0.01 * rng 0) rs"] exI [of _ "rng 0"])
       (simp add: quadratic_def)
qed

theorem eval_shared_noise_witness:
  "wf_array (Arr2 3 [[1, 2, 3], [0, 0, 0]])
   \<and> RandomState counting None 0 = (unseeded counting 0, 1)
   \<and> (\<exists>y z. eval counting (Arr2 3 [[1, 2, 3], [0, 0, 0]]) 0.5 None 0 = Inr (Arr1 y, 1)
            \<and> randn1 (unseeded counting 0) 1 = Arr1 [z] \<and> length y = 2
            \<and> y ! 0 = 1 * 0.5\<^sup>2 + 2 * 0.5 + 3 + 0.01 * z \<and> y ! 1 = 0.01 * z)"
proof -
  have wf: "wf_array (Arr2 3 [[1, 2, 3], [0, 0, 0]])"
    by simp
  have gen: "RandomState counting None 0 = (unseeded counting 0, 1)"
    by (simp add: RandomState_def)
  obtain y z where run: "eval counting (Arr2 3 [[1, 2, 3], [0, 0, 0]]) 0.5 None 0 = Inr (Arr1 y, 1)"
      and draw: "randn1 (unseeded counting 0) 1 = Arr1 [z]"
      and len: "length y = length [[1, 2, 3], [0, 0, 0 :: real]]"
      and entries: "\<forall>j<length [[1, 2, 3], [0, 0, 0 :: real]].
                      y ! j = [[1, 2, 3], [0, 0, 0]] ! j ! 0 * 0.5\<^sup>2
                              + [[1, 2, 3], [0, 0, 0]] ! j ! 1 * 0.5
                              + [[1, 2, 3], [0, 0, 0]] ! j ! 2 + 0.01 * z"
    using eval_shared_noise [OF wf gen, of "0.5"] by blast
  from entries have "y ! 0 = [[1, 2, 3], [0, 0, 0]] ! 0 ! 0 * 0.5\<^sup>2
                              + [[1, 2, 3], [0, 0, 0]] ! 0 ! 1 * 0.5
                              + [[1, 2, 3], [0, 0, 0]] ! 0 ! 2 + 0.01 * z"
    and "y ! 1 = [[1, 2, 3], [0, 0, 0]] ! 1 ! 0 * 0.5\<^sup>2
                              + [[1, 2, 3], [0, 0, 0]] ! 1 ! 1 * 0.5
                              + [[1, 2, 3], [0, 0, 0]] ! 1 ! 2 + 0.01 * z"
    by simp_all
  then have "y ! 0 = 1 * 0.5\<^sup>2 + 2 * 0.5 + 3 + 0.01 * z" and "y ! 1 = 0.01 * z"
    by simp_all
  with wf gen run draw len show ?thesis
    by auto
qed

section \<open>The coordinate statistic\<close>

text \<open>
  Claim C8. For a batch of \<open>N\<close> parameter triples, \<open>get_3_values\<close> calls \<open>eval\<close> at
  \<open>- 0.5\<close>, then at \<open>0\<close>, then at \<open>0.75\<close>, and returns the matrix of \<open>N\<close> rows and three
  columns whose column \<open>k\<close> is the result of call \<open>k\<close>.
\<close>

theorem get_3_values_columns:
  assumes "wf_array (Arr2 3 rs)"
  shows "\<exists>e1 w1 e2 w2 e3 w3 m.
           eval R (Arr2 3 rs) (- 0.5) seed w = Inr (Arr1 e1, w1)
           \<and> eval R (Arr2 3 rs) 0 seed w1 = Inr (Arr1 e2, w2)
           \<and> eval R (Arr2 3 rs) 0.75 seed w2 = Inr (Arr1 e3, w3)
           \<and> get_3_values R (Arr2 3 rs) seed w = Inr (Arr2 3 m, w3)
           \<and> shape (Arr2 3 m) = [length rs, 3] \<and> wf_array (Arr2 3 m)
           \<and> (\<forall>j<length rs. m ! j = [e1 ! j, e2 ! j, e3 ! j])"
proof -
  obtain g1 w1 where g1: "RandomState R seed w = (g1, w1)"
    by (cases "RandomState R seed w")
  obtain g2 w2 where g2: "RandomState R seed w1 = (g2, w2)"
    by (cases "RandomState R seed w1")
  obtain g3 w3 where g3: "RandomState R seed w2 = (g3, w3)"
    by (cases "RandomState R seed w2")
  define e1 where "e1 = map (\<lambda>r. quadratic r (- 0.5) + 0.01 * g1 0) rs"
  define e2 where "e2 = map (\<lambda>r. quadratic r 0 + 0.01 * g2 0) rs"
  define e3 where "e3 = map (\<lambda>r. quadratic r 0.75 + 0.01 * g3 0) rs"
  define m where "m = map (\<lambda>r. [quadratic r (- 0.5) + 0.01 * g1 0,
                                  quadratic r 0 + 0.01 * g2 0,
                                  quadratic r 0.75 + 0.01 * g3 0]) rs"
  have "eval R (Arr2 3 rs) (- 0.5) seed w = Inr (Arr1 e1, w1)"
    and "eval R (Arr2 3 rs) 0 seed w1 = Inr (Arr1 e2, w2)"
    and "eval R (Arr2 3 rs) 0.75 seed w2 = Inr (Arr1 e3, w3)"
    by (simp_all add: eval_rows g1 g2 g3 e1_def e2_def e3_def)
  moreover have "get_3_values R (Arr2 3 rs) seed w = Inr (Arr2 3 m, w3)"
    unfolding m_def by (rule get_3_values_rows [OF _ g1 g2 g3]) simp
  moreover have "shape (Arr2 3 m) = [length rs, 3]" and "wf_array (Arr2 3 m)"
    by (simp_all add: m_def list_all_iff)
  moreover have "\<forall>j<length rs. m ! j = [e1 ! j, e2 ! j, e3 ! j]"
    by (simp add: m_def e1_def e2_def e3_def)
  ultimately show ?thesis
    by blast
qed

theorem get_3_values_columns_witness:
  "wf_array (Arr2 3 [[1, 0, 0], [0, 0, 0]])
   \<and> (\<exists>e1 w1 e2 w2 e3 w3 m.
           eval counting (Arr2 3 [[1, 0, 0], [0, 0, 0]]) (- 0.5) None 0 = Inr (Arr1 e1, w1)
           \<and> eval counting (Arr2 3 [[1, 0, 0], [0, 0, 0]]) 0 None w1 = Inr (Arr1 e2, w2)
           \<and> eval counting (Arr2 3 [[1, 0, 0], [0, 0, 0]]) 0.75 None w2 = Inr (Arr1 e3, w3)
           \<and> get_3_values counting (Arr2 3 [[1, 0, 0], [0, 0, 0]]) None 0 = Inr (Arr2 3 m, w3)
           \<and> shape (Arr2 3 m) = [2, 3]
           \<and> m ! 0 = [e1 ! 0, e2 ! 0, e3 ! 0] \<and> m ! 1 = [e1 ! 1, e2 ! 1, e3 ! 1])"
proof -
  have wf: "wf_array (Arr2 3 [[1, 0, 0], [0, 0, 0]])"
    by simp
  have n: "length [[1, 0, 0], [0, 0, 0 :: real]] = 2"
    by simp
  obtain e1 w1 e2 w2 e3 w3 m where
    "eval counting (Arr2 3 [[1, 0, 0], [0, 0, 0]]) (- 0.5) None 0 = Inr (Arr1 e1, w1)"
    "eval counting (Arr2 3 [[1, 0, 0], [0, 0, 0]]) 0 None w1 = Inr (Arr1 e2, w2)"
    "eval counting (Arr2 3 [[1, 0, 0], [0, 0, 0]]) 0.75 None w2 = Inr (Arr1 e3, w3)"
    "get_3_values counting (Arr2 3 [[1, 0, 0], [0, 0, 0]]) None 0 = Inr (Arr2 3 m, w3)"
    "shape (Arr2 3 m) = [2, 3]"
    and rows: "\<forall>j<2. m ! j = [e1 ! j, e2 ! j, e3 ! j]"
    using get_3_values_columns [OF wf, of counting None 0] unfolding n by blast
  moreover from rows have "m ! 0 = [e1 ! 0, e2 ! 0, e3 ! 0]" and "m ! 1 = [e1 ! 1, e2 ! 1, e3 ! 1]"
    by simp_all
  ultimately show ?thesis
    using wf by blast
qed

text \<open>
  Claim C2, as the code has it. With a seed, \<open>get_3_values\<close> is a function of the
  parameter batch and the seed alone. Its three calls of \<open>eval\<close> each build a generator
  from the same seed and each add that generator's first draw, so the three columns
  carry the same noise \<open>0.01 * z\<close>, where \<open>z\<close> is draw 0 of the generator of the seed.
\<close>

theorem get_3_values_seeded_shared_draw:
  assumes "wf_array (Arr2 3 rs)"
  shows "get_3_values R theta (Some s) w
           = map_sum id (\<lambda>r. (fst r, w)) (get_3_values R theta (Some s) w')
         \<and> (\<exists>m. get_3_values R (Arr2 3 rs) (Some s) w = Inr (Arr2 3 m, w)
                \<and> length m = length rs
                \<and> (\<forall>j<length rs.
                      m ! j = [rs ! j ! 0 * (- 0.5)\<^sup>2 + rs ! j ! 1 * (- 0.5) + rs ! j ! 2
                                 + 0.01 * seeded R s 0,
                               rs ! j ! 0 * 0\<^sup>2 + rs ! j ! 1 * 0 + rs ! j ! 2
                                 + 0.01 * seeded R s 0,
                               rs ! j ! 0 * 0.75\<^sup>2 + rs ! j ! 1 * 0.75 + rs ! j ! 2
                                 + 0.01 * seeded R s 0]))"
proof
  show "get_3_values R theta (Some s) w
           = map_sum id (\<lambda>r. (fst r, w)) (get_3_values R theta (Some s) w')"
    by (rule get_3_values_seeded_state)
next
  have gen: "RandomState R (Some s) w = (seeded R s, w)"
    by (simp add: RandomState_def)
  have "get_3_values R (Arr2 3 rs) (Some s) w =
           Inr (Arr2 3 (map (\<lambda>r. [quadratic r (- 0.5) + 0.01 * seeded R s 0,
                                   quadratic r 0 + 0.01 * seeded R s 0,
                                   quadratic r 0.75 + 0.01 * seeded R s 0]) rs), w)"
    by (rule get_3_values_rows [OF _ gen gen gen]) simp
  then show "\<exists>m. get_3_values R (Arr2 3 rs) (Some s) w = Inr (Arr2 3 m, w)
                \<and> length m = length rs
                \<and> (\<forall>j<length rs.
                      m ! j = [rs ! j ! 0 * (- 0.5)\<^sup>2 + rs ! j ! 1 * (- 0.5) + rs ! j ! 2
                                 + 0.01 * seeded R s 0,
                               rs ! j ! 0 * 0\<^sup>2 + rs ! j ! 1 * 0 + rs ! j ! 2
                                 + 0.01 * seeded R s 0,
                               rs ! j ! 0 * 0.75\<^sup>2 + rs ! j ! 1 * 0.75 + rs ! j ! 2
                                 + 0.01 * seeded R s 0])"
    by (simp add: quadratic_def)
qed

theorem get_3_values_seeded_shared_draw_witness:
  "wf_array (Arr2 3 [[1, 0, 0]])
   \<and> get_3_values counting (Arr2 3 [[1, 0, 0]]) (Some 7) 0
       = map_sum id (\<lambda>r. (fst r, 0)) (get_3_values counting (Arr2 3 [[1, 0, 0]]) (Some 7) 4)
   \<and> (\<exists>m. get_3_values counting (Arr2 3 [[1, 0, 0]]) (Some 7) 0 = Inr (Arr2 3 m, 0)
          \<and> m ! 0 = [0.25 + 0.01 * seeded counting 7 0,
                     0.01 * seeded counting 7 0,
                     0.5625 + 0.01 * seeded counting 7 0])"
proof -
  have wf: "wf_array (Arr2 3 [[1, 0, 0]])"
    by simp
  note inst = get_3_values_seeded_shared_draw [OF wf, of counting "Arr2 3 [[1, 0, 0]]" 7 0 4]
  from inst obtain m where run: "get_3_values counting (Arr2 3 [[1, 0, 0]]) (Some 7) 0 = Inr (Arr2 3 m, 0)"
    and rows: "\<forall>j<length [[1, 0, 0 :: real]].
                      m ! j = [[[1, 0, 0]] ! j ! 0 * (- 0.5)\<^sup>2 + [[1, 0, 0]] ! j ! 1 * (- 0.5)
                                 + [[1, 0, 0]] ! j ! 2 + 0.01 * seeded counting 7 0,
                               [[1, 0, 0]] ! j ! 0 * 0\<^sup>2 + [[1, 0, 0]] ! j ! 1 * 0
                                 + [[1, 0, 0]] ! j ! 2 + 0.01 * seeded counting 7 0,
                               [[1, 0, 0]] ! j ! 0 * 0.75\<^sup>2 + [[1, 0, 0]] ! j ! 1 * 0.75
                                 + [[1, 0, 0]] ! j ! 2 + 0.01 * seeded counting 7 0]"
    by blast
  from rows have "m ! 0 = [0.25 + 0.01 * seeded counting 7 0,
                     0.01 * seeded counting 7 0,
                     0.5625 + 0.01 * seeded counting 7 0]"
    by (simp add: power2_eq_square)
  with wf inst run show ?thesis
    by blast
qed

text \<open>
  The claim as it was stated fails: on the parameter vector \<open>(0, 0, 0)\<close> the output is the
  noise alone, and with a seed the three columns hold the same value, 0.01 times draw 0,
  although the draws of the generator are pairwise different.
\<close>

theorem get_3_values_independent_noise_counterexample:
  "inj (seeded counting 0)
   \<and> get_3_values counting (Arr2 3 [[0, 0, 0]]) (Some 0) 0
       = Inr (Arr2 3 [[0.01 * seeded counting 0 0,
                       0.01 * seeded counting 0 0,
                       0.01 * seeded counting 0 0]], 0)"
proof
  show "inj (seeded counting 0)"
    by (simp add: counting_def inj_def)
next
  have gen: "RandomState counting (Some 0) 0 = (seeded counting 0, 0)"
    by (simp add: RandomState_def)
  have "get_3_values counting (Arr2 3 [[0, 0, 0]]) (Some 0) 0 =
           Inr (Arr2 3 (map (\<lambda>r. [quadratic r (- 0.5) + 0.01 * seeded counting 0 0,
                                   quadratic r 0 + 0.01 * seeded counting 0 0,
                                   quadratic r 0.75 + 0.01 * seeded counting 0 0]) [[0, 0, 0]]), 0)"
    by (rule get_3_values_rows [OF _ gen gen gen]) simp
  then show "get_3_values counting (Arr2 3 [[0, 0, 0]]) (Some 0) 0
       = Inr (Arr2 3 [[0.01 * seeded counting 0 0,
                       0.01 * seeded counting 0 0,
                       0.01 * seeded counting 0 0]], 0)"
    by (simp add: quadratic_def)
qed

section \<open>The error statistic\<close>

text \<open>
  Claim C7. For a batch of \<open>N\<close> candidate triples and one reference vector, \<open>get_MSE\<close>
  makes the reference trace \<open>xo\<close> (200 rows, one column), then the candidate trace \<open>xc\<close>
  (200 rows, \<open>N\<close> columns), and returns a column of \<open>N\<close> rows whose entry \<open>j\<close> is the mean
  over the 200 grid points of \<open>(xc\<^sub>i\<^sub>j - xo\<^sub>i\<^sub>0)\<^sup>2\<close>; no entry is negative.
\<close>

theorem get_MSE_mean_squared_error:
  assumes "wf_array (Arr2 3 rs)" and "length v = 3"
  shows "\<exists>t xo w1 t' xc w2 m.
           create_t_x R (Arr1 v) seed w = Inr ((t, Arr2 1 xo), w1)
           \<and> create_t_x R (Arr2 3 rs) seed w1 = Inr ((t', Arr2 (length rs) xc), w2)
           \<and> get_MSE R (Arr2 3 rs) (Arr1 v) seed w = Inr (Arr2 1 m, w2)
           \<and> shape (Arr2 1 m) = [length rs, 1]
           \<and> (\<forall>j<length rs.
                 m ! j = [(\<Sum>i\<leftarrow>[0..<200]. (xc ! i ! j - xo ! i ! 0)\<^sup>2) / 200]
                 \<and> 0 \<le> m ! j ! 0)"
proof -
  obtain g1 w1 where g1: "RandomState R seed w = (g1, w1)"
    by (cases "RandomState R seed w")
  obtain g2 w2 where g2: "RandomState R seed w1 = (g2, w2)"
    by (cases "RandomState R seed w1")
  define m where "m = map (\<lambda>j. [mse (trace g2 rs) (trace g1 [v]) j]) [0..<length rs]"
  have "create_t_x R (Arr1 v) seed w
          = Inr ((Arr1 (map time_grid [0..<200]), Arr2 1 (trace g1 [v])), w1)"
    using create_t_x_rows [of "length v" R "[v]" seed w] assms(2)
    by (simp add: create_t_x_vector g1)
  moreover have "create_t_x R (Arr2 3 rs) seed w1
          = Inr ((Arr1 (map time_grid [0..<200]), Arr2 (length rs) (trace g2 rs)), w2)"
    using create_t_x_rows [of 3 R rs seed w1] by (simp add: g2)
  moreover have "get_MSE R (Arr2 3 rs) (Arr1 v) seed w = Inr (Arr2 1 m, w2)"
    unfolding m_def using assms(2) by (intro get_MSE_rows [OF _ _ g1 g2]) simp_all
  moreover have "shape (Arr2 1 m) = [length rs, 1]"
    by (simp add: m_def)
  moreover have "\<forall>j<length rs.
                 m ! j = [(\<Sum>i\<leftarrow>[0..<200]. (trace g2 rs ! i ! j - trace g1 [v] ! i ! 0)\<^sup>2) / 200]
                 \<and> 0 \<le> m ! j ! 0"
    using mse_nonneg [of "trace g2 rs" "trace g1 [v]"] by (simp add: m_def mse_def)
  ultimately show ?thesis
    by blast
qed

theorem get_MSE_mean_squared_error_witness:
  "wf_array (Arr2 3 [[1, 0, 0], [0.3, - 0.2, - 0.1]]) \<and> length [0.3, - 0.2, - 0.1 :: real] = 3
   \<and> (\<exists>t xo w1 t' xc w2 m.
         create_t_x counting (Arr1 [0.3, - 0.2, - 0.1]) None 0 = Inr ((t, Arr2 1 xo), w1)
         \<and> create_t_x counting (Arr2 3 [[1, 0, 0], [0.3, - 0.2, - 0.1]]) None w1
             = Inr ((t', Arr2 2 xc), w2)
         \<and> get_MSE counting (Arr2 3 [[1, 0, 0], [0.3, - 0.2, - 0.1]]) (Arr1 [0.3, - 0.2, - 0.1]) None 0
             = Inr (Arr2 1 m, w2)
         \<and> shape (Arr2 1 m) = [2, 1]
         \<and> m ! 1 = [(\<Sum>i\<leftarrow>[0..<200]. (xc ! i ! 1 - xo ! i ! 0)\<^sup>2) / 200]
         \<and> 0 \<le> m ! 1 ! 0)"
proof -
  have wf: "wf_array (Arr2 3 [[1, 0, 0], [0.3, - 0.2, - 0.1]])"
    and v: "length [0.3, - 0.2, - 0.1 :: real] = 3"
    by simp_all
  have n: "length [[1, 0, 0], [0.3, - 0.2, - 0.1 :: real]] = 2"
    by simp
  obtain t xo w1 t' xc w2 m where
    "create_t_x counting (Arr1 [0.3, - 0.2, - 0.1]) None 0 = Inr ((t, Arr2 1 xo), w1)"
    "create_t_x counting (Arr2 3 [[1, 0, 0], [0.3, - 0.2, - 0.1]]) None w1
       = Inr ((t', Arr2 2 xc), w2)"
    "get_MSE counting (Arr2 3 [[1, 0, 0], [0.3, - 0.2, - 0.1]]) (Arr1 [0.3, - 0.2, - 0.1]) None 0
       = Inr (Arr2 1 m, w2)"
    "shape (Arr2 1 m) = [2, 1]"
    and rows: "\<forall>j<2. m ! j = [(\<Sum>i\<leftarrow>[0..<200]. (xc ! i ! j - xo ! i ! 0)\<^sup>2) / 200]
                 \<and> 0 \<le> m ! j ! 0"
    using get_MSE_mean_squared_error [OF wf v, of counting None 0] unfolding n by blast
  moreover have "(1 :: nat) < 2"
    by simp
  with rows have "m ! 1 = [(\<Sum>i\<leftarrow>[0..<200]. (xc ! i ! 1 - xo ! i ! 0)\<^sup>2) / 200]
      \<and> 0 \<le> m ! 1 ! 0"
    by blast
  ultimately show ?thesis
    using wf v by blast
qed

text \<open>
  Claim C9. With a seed, and a candidate batch that is the reference vector alone (given
  as a batch of one row or as the vector itself), \<open>get_MSE\<close> returns \<open>[[0]]\<close>: both traces
  are made by a generator built from the same seed, both take draws \<open>0, \<dots>, 199\<close> of it,
  and the two traces are equal.
\<close>

theorem get_MSE_same_seed_cancels:
  assumes "length v = 3"
  shows "get_MSE R (Arr2 3 [v]) (Arr1 v) (Some s) w = Inr (Arr2 1 [[0]], w)
         \<and> get_MSE R (Arr1 v) (Arr1 v) (Some s) w = Inr (Arr2 1 [[0]], w)"
proof -
  have gen: "RandomState R (Some s) w = (seeded R s, w)"
    by (simp add: RandomState_def)
  have "get_MSE R (Arr2 3 [v]) (Arr1 v) (Some s) w
          = Inr (Arr2 1 (map (\<lambda>j. [mse (trace (seeded R s) [v]) (trace (seeded R s) [v]) j])
                           [0..<length [v]]), w)"
    using assms by (intro get_MSE_rows [OF _ _ gen gen]) simp_all
  then have "get_MSE R (Arr2 3 [v]) (Arr1 v) (Some s) w = Inr (Arr2 1 [[0]], w)"
    by (simp add: mse_same_trace)
  then show ?thesis
    using assms by (simp add: get_MSE_vector)
qed

theorem get_MSE_same_seed_cancels_witness:
  "length [0.3, - 0.2, - 0.1 :: real] = 3
   \<and> get_MSE counting (Arr2 3 [[0.3, - 0.2, - 0.1]]) (Arr1 [0.3, - 0.2, - 0.1]) (Some 7) 0
       = Inr (Arr2 1 [[0]], 0)
   \<and> get_MSE counting (Arr1 [0.3, - 0.2, - 0.1]) (Arr1 [0.3, - 0.2, - 0.1]) (Some 7) 0
       = Inr (Arr2 1 [[0]], 0)"
proof -
  have v: "length [0.3, - 0.2, - 0.1 :: real] = 3"
    by simp
  from v get_MSE_same_seed_cancels [OF v, of counting 7 0] show ?thesis
    by blast
qed

text \<open>
  Claim C10. A single parameter vector of three entries, given as a one-dimensional
  array, is accepted by both statistics as a batch of one: \<open>get_3_values\<close> returns a matrix
  of shape \<open>(1, 3)\<close> and \<open>get_MSE\<close> (with a reference vector of three entries) a matrix
  of shape \<open>(1, 1)\<close>.
\<close>

theorem single_vector_statistics:
  assumes "length v = 3" and "length vo = 3"
  shows "(\<exists>m w'. get_3_values R (Arr1 v) seed w = Inr (m, w') \<and> shape m = [1, 3] \<and> wf_array m)
         \<and> (\<exists>m w'. get_MSE R (Arr1 v) (Arr1 vo) seed w = Inr (m, w') \<and> shape m = [1, 1]
                     \<and> wf_array m)"
proof
  obtain g1 w1 where g1: "RandomState R seed w = (g1, w1)"
    by (cases "RandomState R seed w")
  obtain g2 w2 where g2: "RandomState R seed w1 = (g2, w2)"
    by (cases "RandomState R seed w1")
  obtain g3 w3 where g3: "RandomState R seed w2 = (g3, w3)"
    by (cases "RandomState R seed w2")
  have "get_3_values R (Arr2 3 [v]) seed w =
           Inr (Arr2 3 (map (\<lambda>r. [quadratic r (- 0.5) + 0.01 * g1 0,
                                   quadratic r 0 + 0.01 * g2 0,
                                   quadratic r 0.75 + 0.01 * g3 0]) [v]), w3)"
    by (rule get_3_values_rows [OF _ g1 g2 g3]) simp
  then show "\<exists>m w'. get_3_values R (Arr1 v) seed w = Inr (m, w') \<and> shape m = [1, 3] \<and> wf_array m"
    using assms(1) by (simp add: get_3_values_vector)
  have "get_MSE R (Arr2 3 [v]) (Arr1 vo) seed w =
           Inr (Arr2 1 (map (\<lambda>j. [mse (trace g2 [v]) (trace g1 [vo]) j]) [0..<length [v]]), w2)"
    using assms(2) by (intro get_MSE_rows [OF _ _ g1 g2]) simp_all
  then show "\<exists>m w'. get_MSE R (Arr1 v) (Arr1 vo) seed w = Inr (m, w') \<and> shape m = [1, 1]
                     \<and> wf_array m"
    using assms(1) by (simp add: get_MSE_vector)
qed

theorem single_vector_statistics_witness:
  "length [1, 0, 0 :: real] = 3 \<and> length [0.3, - 0.2, - 0.1 :: real] = 3
   \<and> (\<exists>m w'. get_3_values counting (Arr1 [1, 0, 0]) None 0 = Inr (m, w') \<and> shape m = [1, 3])
   \<and> (\<exists>m w'. get_MSE counting (Arr1 [1, 0, 0]) (Arr1 [0.3, - 0.2, - 0.1]) None 0 = Inr (m, w')
               \<and> shape m = [1, 1])"
proof -
  have v: "length [1, 0, 0 :: real] = 3" and vo: "length [0.3, - 0.2, - 0.1 :: real] = 3"
    by simp_all
  from v vo single_vector_statistics [OF v vo, of counting None 0] show ?thesis
    by blast
qed

section \<open>Parameter batches that are not triples\<close>

text \<open>
  Claim C3, as the code has it. Neither function checks the shape of \<open>theta\<close>; what
  happens follows from the column indexing \<open>theta[:, 0]\<close>, \<open>theta[:, 1]\<close>, \<open>theta[:, 2]\<close>.
  With fewer than three columns (in a batch, or entries in a single vector) both functions
  fail with IndexError at the first column that is missing. With more than three columns
  neither fails: both return what they return on the first three columns, and the other
  columns are ignored.
\<close>

theorem inner_dimension_mismatch:
  "(wf_array (Arr2 c rs) \<and> c < 3 \<longrightarrow>
      create_t_x R (Arr2 c rs) seed w = Inl IndexError
      \<and> eval R (Arr2 c rs) t seed w = Inl IndexError)
   \<and> (length v < 3 \<longrightarrow>
      create_t_x R (Arr1 v) seed w = Inl IndexError
      \<and> eval R (Arr1 v) t seed w = Inl IndexError)
   \<and> (wf_array (Arr2 c rs) \<and> 3 < c \<longrightarrow>
      create_t_x R (Arr2 c rs) seed w = create_t_x R (Arr2 3 (map (take 3) rs)) seed w
      \<and> \<not> isl (create_t_x R (Arr2 c rs) seed w)
      \<and> eval R (Arr2 c rs) t seed w = eval R (Arr2 3 (map (take 3) rs)) t seed w
      \<and> \<not> isl (eval R (Arr2 c rs) t seed w))
   \<and> (3 < length v \<longrightarrow>
      create_t_x R (Arr1 v) seed w = create_t_x R (Arr1 (take 3 v)) seed w
      \<and> \<not> isl (create_t_x R (Arr1 v) seed w)
      \<and> eval R (Arr1 v) t seed w = eval R (Arr1 (take 3 v)) t seed w
      \<and> \<not> isl (eval R (Arr1 v) t seed w))"
proof (intro conjI impI)
  assume "wf_array (Arr2 c rs) \<and> c < 3"
  then show "create_t_x R (Arr2 c rs) seed w = Inl IndexError"
    and "eval R (Arr2 c rs) t seed w = Inl IndexError"
    by (simp_all add: create_t_x_short eval_short)
next
  assume "length v < 3"
  then show "create_t_x R (Arr1 v) seed w = Inl IndexError"
    and "eval R (Arr1 v) t seed w = Inl IndexError"
    by (simp_all add: create_t_x_vector eval_vector create_t_x_short eval_short)
next
  assume "wf_array (Arr2 c rs) \<and> 3 < c"
  then have c: "3 \<le> c"
    by simp
  show "create_t_x R (Arr2 c rs) seed w = create_t_x R (Arr2 3 (map (take 3) rs)) seed w"
    by (rule create_t_x_long [OF c])
  show "eval R (Arr2 c rs) t seed w = eval R (Arr2 3 (map (take 3) rs)) t seed w"
    by (rule eval_long [OF c])
  show "\<not> isl (create_t_x R (Arr2 c rs) seed w)"
    by (simp add: create_t_x_rows [OF c])
  show "\<not> isl (eval R (Arr2 c rs) t seed w)"
    by (simp add: eval_rows [OF c])
next
  assume "3 < length v"
  then have v: "3 \<le> length v"
    by simp
  then have short: "min (length v) 3 = 3"
    by simp
  show "create_t_x R (Arr1 v) seed w = create_t_x R (Arr1 (take 3 v)) seed w"
    using create_t_x_long [OF v, of R "[v]" seed w] by (simp add: create_t_x_vector short)
  show "eval R (Arr1 v) t seed w = eval R (Arr1 (take 3 v)) t seed w"
    using eval_long [OF v, of R "[v]" t seed w] by (simp add: eval_vector short)
  show "\<not> isl (create_t_x R (Arr1 v) seed w)"
    by (simp add: create_t_x_vector create_t_x_rows [OF v])
  show "\<not> isl (eval R (Arr1 v) t seed w)"
    by (simp add: eval_vector eval_rows [OF v])
qed

theorem inner_dimension_mismatch_witness:
  "wf_array (Arr2 2 [[1, 2]]) \<and> (2 :: nat) < 3 \<and> length [1, 2 :: real] < 3
   \<and> create_t_x counting (Arr2 2 [[1, 2]]) None 0 = Inl IndexError
   \<and> eval counting (Arr2 2 [[1, 2]]) 0.5 None 0 = Inl IndexError
   \<and> create_t_x counting (Arr1 [1, 2]) None 0 = Inl IndexError
   \<and> eval counting (Arr1 [1, 2]) 0.5 None 0 = Inl IndexError
   \<and> wf_array (Arr2 4 [[1, 2, 3, 4]]) \<and> (3 :: nat) < 4 \<and> 3 < length [1, 2, 3, 4 :: real]
   \<and> create_t_x counting (Arr2 4 [[1, 2, 3, 4]]) None 0
       = create_t_x counting (Arr2 3 [[1, 2, 3]]) None 0
   \<and> eval counting (Arr2 4 [[1, 2, 3, 4]]) 0.5 None 0
       = eval counting (Arr2 3 [[1, 2, 3]]) 0.5 None 0
   \<and> eval counting (Arr1 [1, 2, 3, 4]) 0.5 None 0 = eval counting (Arr1 [1, 2, 3]) 0.5 None 0"
proof -
  have short: "wf_array (Arr2 2 [[1, 2]]) \<and> (2 :: nat) < 3" "length [1, 2 :: real] < 3"
    and long: "wf_array (Arr2 4 [[1, 2, 3, 4]]) \<and> (3 :: nat) < 4" "3 < length [1, 2, 3, 4 :: real]"
    by simp_all
  have cut: "map (take 3) [[1, 2, 3, 4 :: real]] = [[1, 2, 3]]" "take 3 [1, 2, 3, 4 :: real] = [1, 2, 3]"
    by simp_all
  from short long show ?thesis
    using inner_dimension_mismatch [of 2 "[[1, 2]]" counting None 0 "0.5" "[1, 2]"]
      inner_dimension_mismatch [of 4 "[[1, 2, 3, 4]]" counting None 0 "0.5" "[1, 2, 3, 4]"]
    unfolding cut by blast
qed

text \<open>
  The claim as it was stated fails at inner dimension 4: on the batch of the one row
  \<open>(0, 0, 0, 7)\<close> both functions return a result, the one they return on \<open>(0, 0, 0)\<close>.
\<close>

theorem inner_dimension_four_counterexample:
  "eval counting (Arr2 4 [[0, 0, 0, 7]]) 0 (Some 0) 0 = Inr (Arr1 [0.01 * seeded counting 0 0], 0)
   \<and> create_t_x counting (Arr2 4 [[0, 0, 0, 7]]) (Some 0) 0
       = create_t_x counting (Arr2 3 [[0, 0, 0]]) (Some 0) 0
   \<and> \<not> isl (create_t_x counting (Arr2 4 [[0, 0, 0, 7]]) (Some 0) 0)"
proof (intro conjI)
  have gen: "RandomState counting (Some 0) 0 = (seeded counting 0, 0)"
    by (simp add: RandomState_def)
  show "eval counting (Arr2 4 [[0, 0, 0, 7]]) 0 (Some 0) 0
          = Inr (Arr1 [0.01 * seeded counting 0 0], 0)"
    using eval_rows [of 4 counting "[[0, 0, 0, 7]]" 0 "Some 0" 0]
    by (simp add: gen quadratic_def)
  show "create_t_x counting (Arr2 4 [[0, 0, 0, 7]]) (Some 0) 0
       = create_t_x counting (Arr2 3 [[0, 0, 0]]) (Some 0) 0"
    using create_t_x_long [of 4 counting "[[0, 0, 0, 7]]" "Some 0" 0] by simp
  show "\<not> isl (create_t_x counting (Arr2 4 [[0, 0, 0, 7]]) (Some 0) 0)"
    using create_t_x_rows [of 4 counting "[[0, 0, 0, 7]]" "Some 0" 0] by simp
qed

end
